theory Spec2Isabelle
  imports Complex_Main "HOL-Library.Signed_Division" "HOL-Library.Sublist"
begin

chapter \<open>Go Responsiveness: the connection collection, the percentile helper,
  the quality-attenuation estimator and the orchestrator\<close>

section \<open>Failures\<close>

text \<open>
  A Go function of this repository ends in one of three ways: it returns its value, it
  returns a non-nil \<^verbatim>\<open>error\<close> built by \<^verbatim>\<open>fmt.Errorf\<close>, or the runtime
  panics. The last two are values of \<open>failure\<close>; a result is \<open>failure + 'a\<close>.
\<close>

datatype failure = Error string | Panic string

section \<open>Package lgc: the load-generating connection collection\<close>

text \<open>
  \<^verbatim>\<open>sync.Mutex\<close> has no owner: it is locked or it is not. The model is a boolean,
  \<open>True\<close> when locked. \<^verbatim>\<open>TryLock\<close> returns whether it took the mutex, together
  with the mutex afterwards; \<^verbatim>\<open>Unlock\<close> of a mutex that is not locked is a fatal
  runtime error.
\<close>

type_synonym mutex = bool

definition TryLock :: "mutex \<Rightarrow> bool \<times> mutex" where
  "TryLock m = (if m then (False, m) else (True, True))"

definition Unlock :: "mutex \<Rightarrow> failure + mutex" where
  "Unlock m = (if m then Inr False else Inl (Panic ''sync: unlock of unlocked mutex''))"

text \<open>
  The struct \<^verbatim>\<open>LoadGeneratingConnectionCollection\<close>. The field \<^verbatim>\<open>LGCs\<close> is a
  pointer to a slice; the collection is the only holder of that pointer, so the slice is
  modelled in place as a list of connections \<open>'c\<close>.
\<close>

record 'c LoadGeneratingConnectionCollection =
  Lock :: mutex
  LGCs :: "'c list"

definition NewLoadGeneratingConnectionCollection :: "'c LoadGeneratingConnectionCollection" where
  "NewLoadGeneratingConnectionCollection = \<lparr>Lock = False, LGCs = []\<rparr>"

text \<open>
  \<^verbatim>\<open>Get\<close> returns a pointer into the slice and an error. The model returns the element
  the pointer refers to. The index is a Go \<^verbatim>\<open>int\<close>: the only guard of the source is
  \<^verbatim>\<open>idx > len\<close>, and the slice expression panics for every other index outside
  \<open>0 \<le> idx < len\<close>. The collection is returned as the call leaves it.
\<close>

definition Get ::
  "'c LoadGeneratingConnectionCollection \<Rightarrow> int \<Rightarrow>
     (failure + 'c) \<times> 'c LoadGeneratingConnectionCollection" where
  "Get collection idx =
     (case TryLock (Lock collection) of
        (True, m) \<Rightarrow>
          (case Unlock m of
             Inl f \<Rightarrow> (Inl f, collection\<lparr>Lock := m\<rparr>)
           | Inr m' \<Rightarrow> (Inl (Error ''collection is unlocked''), collection\<lparr>Lock := m'\<rparr>))
      | (False, m) \<Rightarrow>
          if idx > int (length (LGCs collection))
          then (Inl (Error ''index too large''), collection\<lparr>Lock := m\<rparr>)
          else if 0 \<le> idx \<and> idx < int (length (LGCs collection))
          then (Inr (LGCs collection ! nat idx), collection\<lparr>Lock := m\<rparr>)
          else (Inl (Panic ''index out of range''), collection\<lparr>Lock := m\<rparr>))"

text \<open>\<^verbatim>\<open>Append\<close> returns an error or \<^verbatim>\<open>nil\<close> (\<open>None\<close>).\<close>

definition Append ::
  "'c LoadGeneratingConnectionCollection \<Rightarrow> 'c \<Rightarrow>
     failure option \<times> 'c LoadGeneratingConnectionCollection" where
  "Append collection conn =
     (case TryLock (Lock collection) of
        (True, m) \<Rightarrow>
          (case Unlock m of
             Inl f \<Rightarrow> (Some f, collection\<lparr>Lock := m\<rparr>)
           | Inr m' \<Rightarrow> (Some (Error ''collection is unlocked''), collection\<lparr>Lock := m'\<rparr>))
      | (False, m) \<Rightarrow> (None, collection\<lparr>Lock := m, LGCs := LGCs collection @ [conn]\<rparr>))"

definition Len :: "'c LoadGeneratingConnectionCollection \<Rightarrow> int" where
  "Len collection = int (length (LGCs collection))"

text \<open>
  A caller's use of a collection, one operation after the other: the three methods, and
  \<^verbatim>\<open>Lock.Lock()\<close> and \<^verbatim>\<open>Lock.Unlock()\<close> on the exported mutex field. Results are
  dropped; a failing operation leaves the collection as the method left it.
\<close>

datatype 'c collection_op = OpGet int | OpAppend 'c | OpLen | OpLock | OpUnlock

fun apply_collection_op ::
  "'c LoadGeneratingConnectionCollection \<Rightarrow> 'c collection_op \<Rightarrow>
     'c LoadGeneratingConnectionCollection" where
  "apply_collection_op c (OpGet idx) = snd (Get c idx)"
| "apply_collection_op c (OpAppend conn) = snd (Append c conn)"
| "apply_collection_op c OpLen = c"
| "apply_collection_op c OpLock = c\<lparr>Lock := True\<rparr>"
| "apply_collection_op c OpUnlock =
     (case Unlock (Lock c) of Inl f \<Rightarrow> c | Inr m \<Rightarrow> c\<lparr>Lock := m\<rparr>)"

fun run_collection_ops ::
  "'c LoadGeneratingConnectionCollection \<Rightarrow> 'c collection_op list \<Rightarrow>
     'c LoadGeneratingConnectionCollection" where
  "run_collection_ops c [] = c"
| "run_collection_ops c (op # ops) = run_collection_ops (apply_collection_op c op) ops"

section \<open>Package utilities\<close>

text \<open>
  A Go \<^verbatim>\<open>int\<close> on a 64-bit platform: arithmetic wraps to 64 bits in two's complement,
  and \<^verbatim>\<open>/\<close> truncates towards zero (\<open>sdiv\<close>).
\<close>

definition go_int :: "int \<Rightarrow> int" where
  "go_int k = signed_take_bit 63 k"

definition percentileIdx :: "nat \<Rightarrow> int \<Rightarrow> int" where
  "percentileIdx elementsCount percentile =
     go_int (int elementsCount * go_int (percentile sdiv 100))"

text \<open>
  \<^verbatim>\<open>CalculatePercentile\<close> sorts the caller's slice in place and then indexes it. The
  model returns the slice as it is left together with the result. The element type is
  any linear order (the integer instances of the source, and floats without NaN), on
  which every sorting algorithm produces the same list.
\<close>

definition CalculatePercentile :: "('a::linorder) list \<Rightarrow> int \<Rightarrow> 'a list \<times> (failure + 'a)" where
  "CalculatePercentile elements percentile =
     (let sorted = sort elements;
          elementsCount = length sorted;
          idx = percentileIdx elementsCount percentile
      in (sorted,
          if 0 \<le> idx \<and> idx < int elementsCount then Inr (sorted ! nat idx)
          else Inl (Panic ''index out of range'')))"

section \<open>Package qualityattenuation\<close>

text \<open>
  Modelled from the spec: the type \<^verbatim>\<open>SimpleQualityAttenuation\<close> and its method
  \<^verbatim>\<open>AddSample\<close> are missing from the sources at hand; only their test file is
  there. The state and the update follow sections 3, 4.4 and 8 of the specification, with
  the field names the tests use. Latencies are \<^verbatim>\<open>float64\<close> seconds, read as real
  numbers. The loss threshold is 15 s and the offset is 0.1 s. Where the specification
  speaks of samples "\<open>\<ge>\<close> 15 s" and elsewhere of a threshold that "is strictly greater
  than", the model takes the strict comparison, which is the one the tests of the
  repository pin (see \<open>TestManySamples_ramp\<close> below). A negative sample is rejected with
  an error and changes nothing. The quantile sketch \<^verbatim>\<open>empiricalDistribution\<close> is
  modelled by the samples it has been given, in order. The fields \<^verbatim>\<open>minimumLatency\<close>
  and \<^verbatim>\<open>maximumLatency\<close> are left out: the specification does not fix how a lost
  sample enters them.
\<close>

definition latencyEqLossThreshold :: real where
  "latencyEqLossThreshold = 15"

definition latencyOffset :: real where
  "latencyOffset = 1 / 10"

record SimpleQualityAttenuation =
  numberOfSamples :: int
  numberOfLosses :: int
  offsetSum :: real
  offsetSumOfSquares :: real
  empiricalDistribution :: "real list"

definition NewSimpleQualityAttenuation :: SimpleQualityAttenuation where
  "NewSimpleQualityAttenuation =
     \<lparr>numberOfSamples = 0, numberOfLosses = 0, offsetSum = 0, offsetSumOfSquares = 0,
      empiricalDistribution = []\<rparr>"

text \<open>
  Modelled from the spec: \<^verbatim>\<open>AddSample\<close>, whose source is missing. A sample above the
  threshold counts as a sample and as a loss and goes no further; any other accepted
  sample enters the offset aggregates, less the offset, and the empirical distribution.
\<close>

definition AddSample ::
  "SimpleQualityAttenuation \<Rightarrow> real \<Rightarrow> failure option \<times> SimpleQualityAttenuation" where
  "AddSample qa sample =
     (if sample < 0 then (Some (Error ''negative latency sample''), qa)
      else if sample > latencyEqLossThreshold
      then (None, qa\<lparr>numberOfSamples := numberOfSamples qa + 1,
                       numberOfLosses := numberOfLosses qa + 1\<rparr>)
      else (None, qa\<lparr>numberOfSamples := numberOfSamples qa + 1,
                       offsetSum := offsetSum qa + (sample - latencyOffset),
                       offsetSumOfSquares := offsetSumOfSquares qa + (sample - latencyOffset)\<^sup>2,
                       empiricalDistribution := empiricalDistribution qa @ [sample]\<rparr>))"

text \<open>
  The loop of \<^verbatim>\<open>TestManySamples\<close> (which is among the sources): the samples
  \<open>i / 10000\<close> for \<open>1 \<le> i < 160000\<close> are added one after the other, the returned
  error being dropped.
\<close>

fun AddSamples :: "SimpleQualityAttenuation \<Rightarrow> real list \<Rightarrow> SimpleQualityAttenuation" where
  "AddSamples qa [] = qa"
| "AddSamples qa (x # xs) = AddSamples (snd (AddSample qa x)) xs"

definition TestManySamples_ramp :: "real list" where
  "TestManySamples_ramp = map (\<lambda>i. real i / 10000) [1..<160000]"

section \<open>Package utilities, continued: the helpers the orchestrator calls\<close>

text \<open>
  \<^verbatim>\<open>Iota\<close> makes a zero-filled slice of \<open>high - low\<close> integers, the difference
  wrapping as a Go \<^verbatim>\<open>int\<close>, and \<^verbatim>\<open>make\<close> panics on a negative length. The loop
  then stores \<open>low, low + 1, \<dots>\<close> for the counters below \<open>high\<close>: when \<open>low < high\<close>
  and the slice was made, that fills it; otherwise the loop does not run and the slice
  stays as made (empty, or zero-filled when the difference wrapped to a positive length).
  The limit of the allocator on the size of a slice is not modelled, here as for every
  slice.
\<close>

definition Iota :: "int \<Rightarrow> int \<Rightarrow> failure + int list" where
  "Iota low high =
     (if go_int (high - low) < 0 then Inl (Panic ''makeslice: len out of range'')
      else if low < high then Inr [low..high - 1]
      else Inr (replicate (nat (go_int (high - low))) 0))"

definition ToMBps :: "real \<Rightarrow> real" where
  "ToMBps bytes = bytes / (1024 * 1024)"

definition ToMbps :: "real \<Rightarrow> real" where
  "ToMbps bytes = ToMBps bytes * 8"

section \<open>The orchestrator: function main\<close>

text \<open>
  The model covers main from the creation of the stabilizers and series to the printed
  results: the measurement loop, the teardown, the computation of the two RPM values and
  the summary on standard output. Flag parsing, the configuration fetch, the data loggers,
  the debugging output, profiling and the Prometheus file are not modelled.
\<close>

subsection \<open>What main is given\<close>

text \<open>
  The packages \<^verbatim>\<open>probe\<close>, \<^verbatim>\<open>rpm\<close>, \<^verbatim>\<open>stabilizer\<close>, \<^verbatim>\<open>ms\<close> and
  \<^verbatim>\<open>extendedstats\<close> are not among the sources. Their types are declared here as
  main uses them, and their functions are parameters of the model.

  A probe data point has the three kinds of section 3 of the specification, a
  \<^verbatim>\<open>time.Duration\<close> (an integer number of nanoseconds) and a round-trip count
  (an unsigned integer). A throughput data point carries the throughput and the number of
  connections; its granular data points are only logged, and logging is not modelled.
\<close>

datatype ProbeType = SelfUp | SelfDown | Foreign

record ProbeDataPoint =
  Type :: ProbeType
  Duration :: int
  RoundTripCount :: nat

record ThroughputDataPoint =
  Throughput :: real
  Connections :: int

text \<open>\<^verbatim>\<open>Duration.Seconds()\<close>, a \<^verbatim>\<open>float64\<close> read as a real number.\<close>

definition Seconds :: "int \<Rightarrow> real" where
  "Seconds d = real_of_int d / 1000000000"

text \<open>
  A stabilizer is an object with the two methods main calls. Its state \<open>'s\<close> and the
  methods are parameters; \<^verbatim>\<open>IsStable\<close> reads the state only.
\<close>

record ('s, 'm) stabilizer =
  AddMeasurement :: "'s \<Rightarrow> 'm \<Rightarrow> 's"
  IsStable :: "'s \<Rightarrow> bool"

text \<open>
  Modelled from the spec: the series type \<^verbatim>\<open>InfiniteMathematicalSeries\<close> of package
  \<^verbatim>\<open>ms\<close> is missing; by section 3 it is an ordered sequence with append, so a series
  is a list and \<^verbatim>\<open>AddElement\<close> appends. Its statistics \<^verbatim>\<open>Percentile\<close>,
  \<^verbatim>\<open>DoubleSidedTrim\<close> and \<^verbatim>\<open>CalculateAverage\<close> are parameters, each free to
  return a value or to panic.
\<close>

definition AddElement :: "real list \<Rightarrow> real \<Rightarrow> real list" where
  "AddElement series element = series @ [element]"

record ms_functions =
  Percentile :: "real list \<Rightarrow> int \<Rightarrow> failure + real"
  DoubleSidedTrim :: "real list \<Rightarrow> nat \<Rightarrow> failure + real list"
  CalculateAverage :: "real list \<Rightarrow> failure + real"

text \<open>
  The environment of a run: the implementations above, whether the platform has extended
  statistics (\<^verbatim>\<open>extendedstats.ExtendedStatsAvailable()\<close>), and the two command-line
  flags that change what main computes.
\<close>

record ('ts, 'ps) environment =
  throughputStabilizerMethods :: "('ts, ThroughputDataPoint) stabilizer"
  probeStabilizerMethods :: "('ps, ProbeDataPoint) stabilizer"
  ms :: ms_functions
  ExtendedStatsAvailable :: bool
  calculateExtendedStats :: bool
  printQualityAttenuation :: bool

subsection \<open>The variables of main that the measurement loop changes\<close>

record ('ts, 'ps) orchestrator =
  responsivenessIsStable :: bool
  downloadThroughputIsStable :: bool
  uploadThroughputIsStable :: bool
  downloadThroughputStabilizer :: 'ts
  uploadThroughputStabilizer :: 'ts
  probeStabilizer :: 'ps
  selfRtts :: "real list"
  selfRttsQualityAttenuation :: SimpleQualityAttenuation
  foreignRtts :: "real list"
  lastUploadThroughputRate :: real
  lastUploadThroughputOpenConnectionCount :: int
  lastDownloadThroughputRate :: real
  lastDownloadThroughputOpenConnectionCount :: int

text \<open>
  The state before the loop: the three flags false, the stabilizers as their constructors
  return them (parameters), empty series, zero throughputs.
\<close>

definition initial_orchestrator :: "'ts \<Rightarrow> 'ts \<Rightarrow> 'ps \<Rightarrow> ('ts, 'ps) orchestrator" where
  "initial_orchestrator dst ust pst =
     \<lparr>responsivenessIsStable = False,
      downloadThroughputIsStable = False,
      uploadThroughputIsStable = False,
      downloadThroughputStabilizer = dst,
      uploadThroughputStabilizer = ust,
      probeStabilizer = pst,
      selfRtts = [],
      selfRttsQualityAttenuation = NewSimpleQualityAttenuation,
      foreignRtts = [],
      lastUploadThroughputRate = 0,
      lastUploadThroughputOpenConnectionCount = 0,
      lastDownloadThroughputRate = 0,
      lastDownloadThroughputOpenConnectionCount = 0\<rparr>"

subsection \<open>The measurement loop\<close>

text \<open>
  One \<^verbatim>\<open>select\<close> of the loop receives from one of four channels. The run of the
  other goroutines is the list of what the successive selects receive.
\<close>

datatype event =
  DownloadThroughputMeasurement ThroughputDataPoint
| UploadThroughputMeasurement ThroughputDataPoint
| ProbeMeasurement ProbeDataPoint
| Timeout

definition on_downloadThroughputMeasurement ::
  "('ts, 'ps) environment \<Rightarrow> ('ts, 'ps) orchestrator \<Rightarrow> ThroughputDataPoint \<Rightarrow>
     ('ts, 'ps) orchestrator" where
  "on_downloadThroughputMeasurement env s m =
     (let st = AddMeasurement (throughputStabilizerMethods env) (downloadThroughputStabilizer s) m
      in s\<lparr>downloadThroughputStabilizer := st,
            downloadThroughputIsStable := IsStable (throughputStabilizerMethods env) st,
            lastDownloadThroughputRate := Throughput m,
            lastDownloadThroughputOpenConnectionCount := Connections m\<rparr>)"

definition on_uploadThroughputMeasurement ::
  "('ts, 'ps) environment \<Rightarrow> ('ts, 'ps) orchestrator \<Rightarrow> ThroughputDataPoint \<Rightarrow>
     ('ts, 'ps) orchestrator" where
  "on_uploadThroughputMeasurement env s m =
     (let st = AddMeasurement (throughputStabilizerMethods env) (uploadThroughputStabilizer s) m
      in s\<lparr>uploadThroughputStabilizer := st,
            uploadThroughputIsStable := IsStable (throughputStabilizerMethods env) st,
            lastUploadThroughputRate := Throughput m,
            lastUploadThroughputOpenConnectionCount := Connections m\<rparr>)"

text \<open>
  The body of \<^verbatim>\<open>for range utilities.Iota(0, int(RoundTripCount))\<close>: one element is
  added to the foreign series for each element of the slice.
\<close>

fun add_foreign_rtts :: "int list \<Rightarrow> ProbeDataPoint \<Rightarrow> real list \<Rightarrow> real list" where
  "add_foreign_rtts [] p series = series"
| "add_foreign_rtts (i # is) p series =
     add_foreign_rtts is p
       (AddElement series (Seconds (Duration p) / real (RoundTripCount p)))"

definition on_probeMeasurement ::
  "('ts, 'ps) environment \<Rightarrow> ('ts, 'ps) orchestrator \<Rightarrow> ProbeDataPoint \<Rightarrow>
     failure + ('ts, 'ps) orchestrator" where
  "on_probeMeasurement env s p =
     (let st = AddMeasurement (probeStabilizerMethods env) (probeStabilizer s) p;
          s1 = s\<lparr>probeStabilizer := st,
                  responsivenessIsStable := IsStable (probeStabilizerMethods env) st\<rparr>
      in if Type p = Foreign then
           (case Iota 0 (go_int (int (RoundTripCount p))) of
              Inl f \<Rightarrow> Inl f
            | Inr is \<Rightarrow> Inr (s1\<lparr>foreignRtts := add_foreign_rtts is p (foreignRtts s1)\<rparr>))
         else if Type p = SelfDown \<or> Type p = SelfUp then
           (let s2 = s1\<lparr>selfRtts := AddElement (selfRtts s1) (Seconds (Duration p))\<rparr>
            in if printQualityAttenuation env
               then Inr (s2\<lparr>selfRttsQualityAttenuation :=
                              snd (AddSample (selfRttsQualityAttenuation s2) (Seconds (Duration p)))\<rparr>)
               else Inr s2)
         else Inr s1)"

text \<open>
  The loop is left in one of two ways: its condition fails, all three flags being true, or
  the timeout channel is selected and \<^verbatim>\<open>break timeout\<close> runs. While no event has
  arrived the select waits: the result \<open>None\<close> says the loop has not been left with the
  events given. A panic in the body ends the program.
\<close>

datatype loop_exit = ConditionFailed | BreakTimeout

fun measurement_loop ::
  "('ts, 'ps) environment \<Rightarrow> ('ts, 'ps) orchestrator \<Rightarrow> event list \<Rightarrow>
     (failure + ('ts, 'ps) orchestrator \<times> loop_exit) option" where
  "measurement_loop env s [] =
     (if responsivenessIsStable s \<and> downloadThroughputIsStable s \<and> uploadThroughputIsStable s
      then Some (Inr (s, ConditionFailed))
      else None)"
| "measurement_loop env s (ev # evs) =
     (if responsivenessIsStable s \<and> downloadThroughputIsStable s \<and> uploadThroughputIsStable s
      then Some (Inr (s, ConditionFailed))
      else (case ev of
              DownloadThroughputMeasurement m \<Rightarrow>
                measurement_loop env (on_downloadThroughputMeasurement env s m) evs
            | UploadThroughputMeasurement m \<Rightarrow>
                measurement_loop env (on_uploadThroughputMeasurement env s m) evs
            | ProbeMeasurement p \<Rightarrow>
                (case on_probeMeasurement env s p of
                   Inl f \<Rightarrow> Some (Inl f)
                 | Inr s' \<Rightarrow> measurement_loop env s' evs)
            | Timeout \<Rightarrow> Some (Inr (s, BreakTimeout))))"

subsection \<open>Teardown\<close>

text \<open>
  What main does to the other goroutines after the loop, in program order: the five
  cancel functions, and one \<^verbatim>\<open>IncorporateConnectionStats\<close> for each connection
  whose statistics are gathered.
\<close>

datatype 'c action =
  proberOperatorCtxCancel
| downloadLoadGeneratorOperatorCtxCancel
| uploadLoadGeneratorOperatorCtxCancel
| IncorporateConnectionStats 'c
| networkActivityCtxCancel
| operatingCtxCancel

text \<open>
  The loop \<^verbatim>\<open>for i := 0; i < collection.Len(); i++\<close> over the download collection.
  The error of \<^verbatim>\<open>Get\<close> is dropped by the source and the pointer is dereferenced: a
  \<^verbatim>\<open>nil\<close> pointer panics there.
\<close>

function incorporate_loop ::
  "'c LoadGeneratingConnectionCollection \<Rightarrow> int \<Rightarrow>
     failure option \<times> 'c action list \<times> 'c LoadGeneratingConnectionCollection" where
  "incorporate_loop c i =
     (if i < Len c then
        (case Get c i of
           (Inl (Panic msg), c') \<Rightarrow> (Some (Panic msg), [], c')
         | (Inl (Error msg), c') \<Rightarrow> (Some (Panic ''nil pointer dereference''), [], c')
         | (Inr conn, c') \<Rightarrow>
             (case incorporate_loop c' (i + 1) of
                (f, acts, c'') \<Rightarrow> (f, IncorporateConnectionStats conn # acts, c'')))
      else (None, [], c))"
  by pat_completeness auto
termination
  by (relation "measure (\<lambda>(c, i). nat (Len c - i))")
     (auto simp: Len_def Get_def TryLock_def Unlock_def split: if_splits)

declare incorporate_loop.simps [simp del]

text \<open>
  The function literal that gathers the statistics: \<^verbatim>\<open>Lock.Lock()\<close> returns once
  main holds the mutex (the collection given is the one main then sees), and the deferred
  \<^verbatim>\<open>Unlock\<close> runs however the loop ends.
\<close>

definition gather_extended_stats ::
  "'c LoadGeneratingConnectionCollection \<Rightarrow>
     failure option \<times> 'c action list \<times> 'c LoadGeneratingConnectionCollection" where
  "gather_extended_stats c =
     (case incorporate_loop (c\<lparr>Lock := True\<rparr>) 0 of
        (f, acts, c') \<Rightarrow>
          (case Unlock (Lock c') of
             Inl u \<Rightarrow> (Some u, acts, c')
           | Inr m \<Rightarrow> (f, acts, c'\<lparr>Lock := m\<rparr>)))"

text \<open>
  At startup main clears the flag \<^verbatim>\<open>calculateExtendedStats\<close> when the platform has no
  extended statistics.
\<close>

definition startup :: "('ts, 'ps) environment \<Rightarrow> ('ts, 'ps) environment" where
  "startup env =
     (if calculateExtendedStats env \<and> \<not> ExtendedStatsAvailable env
      then env\<lparr>calculateExtendedStats := False\<rparr> else env)"

text \<open>
  The teardown, lines "First, stop the load generator and the probe operators" to
  "Finally, stop the world". It returns the panic that ended it, if any, the actions done
  up to there, and the download collection.
\<close>

definition teardown ::
  "('ts, 'ps) environment \<Rightarrow> 'c LoadGeneratingConnectionCollection \<Rightarrow>
     failure option \<times> 'c action list \<times> 'c LoadGeneratingConnectionCollection" where
  "teardown env c =
     (let first = [proberOperatorCtxCancel, downloadLoadGeneratorOperatorCtxCancel,
                   uploadLoadGeneratorOperatorCtxCancel];
          third = [networkActivityCtxCancel, operatingCtxCancel]
      in if calculateExtendedStats env then
           if ExtendedStatsAvailable env then
             (case gather_extended_stats c of
                (Some f, acts, c') \<Rightarrow> (Some f, first @ acts, c')
              | (None, acts, c') \<Rightarrow> (None, first @ acts @ third, c'))
           else (Some (Panic
                  ''Extended stats are not available but the user requested their calculation.''),
                 first, c)
         else (None, first @ third, c))"

subsection \<open>The final report\<close>

text \<open>
  A \<^verbatim>\<open>float64\<close> quotient. With a divisor of zero the quotient of the source is an
  infinity or NaN and not a number: \<open>None\<close>.
\<close>

definition float64_divide :: "real \<Rightarrow> real \<Rightarrow> real option" where
  "float64_divide a b = (if b = 0 then None else Some (a / b))"

text \<open>
  "Calculate the RPM": both series are trimmed, the trimmed series are averaged, the
  90th percentiles of the series as they are (not trimmed) are taken, and the two RPM
  values are computed. The result is the pair \<open>(p90Rpm, meanRpm)\<close>.
\<close>

definition calculate_rpm ::
  "ms_functions \<Rightarrow> ('ts, 'ps) orchestrator \<Rightarrow> failure + real option \<times> real option" where
  "calculate_rpm f s =
     (case DoubleSidedTrim f (selfRtts s) 10 of Inl e \<Rightarrow> Inl e | Inr selfRttsTrimmed \<Rightarrow>
      case DoubleSidedTrim f (foreignRtts s) 10 of Inl e \<Rightarrow> Inl e | Inr foreignRttsTrimmed \<Rightarrow>
      case CalculateAverage f selfRttsTrimmed of Inl e \<Rightarrow> Inl e
      | Inr selfProbeRoundTripTimeMean \<Rightarrow>
      case CalculateAverage f foreignRttsTrimmed of Inl e \<Rightarrow> Inl e
      | Inr foreignProbeRoundTripTimeMean \<Rightarrow>
      case Percentile f (selfRtts s) 90 of Inl e \<Rightarrow> Inl e
      | Inr selfProbeRoundTripTimeP90 \<Rightarrow>
      case Percentile f (foreignRtts s) 90 of Inl e \<Rightarrow> Inl e
      | Inr foreignProbeRoundTripTimeP90 \<Rightarrow>
        Inr (float64_divide 60
               ((selfProbeRoundTripTimeP90 + foreignProbeRoundTripTimeP90) / 2),
             float64_divide 60
               ((selfProbeRoundTripTimeMean + foreignProbeRoundTripTimeMean) / 2)))"

text \<open>
  The specification's words for the same two numbers: 60 divided by the arithmetic mean of
  the self and the foreign statistic.
\<close>

definition arithmetic_mean :: "real list \<Rightarrow> real" where
  "arithmetic_mean xs = sum_list xs / real (length xs)"

definition spec_rpm :: "real \<Rightarrow> real \<Rightarrow> real" where
  "spec_rpm self foreign = 60 / arithmetic_mean [self, foreign]"

subsection \<open>The series statistics, from the specification\<close>

text \<open>
  Modelled from the spec: the methods \<^verbatim>\<open>DoubleSidedTrim\<close>, \<^verbatim>\<open>CalculateAverage\<close>
  and \<^verbatim>\<open>Percentile\<close> of the series type of package \<^verbatim>\<open>ms\<close> are missing. By the
  specification the double-sided trim by \<open>p\<close> percent "returns a new series dropping the
  lowest \<open>p\<close>% and highest \<open>p\<close>%" "of sorted samples", and the average is the arithmetic
  mean. The trim is read on whole samples: of \<open>n\<close> samples the \<open>n * p div 100\<close> smallest
  and as many of the largest are dropped. The specification names the percentile without
  fixing a method; the model takes the nearest rank, the sample of rank
  \<open>\<lceil>n * p / 100\<rceil>\<close> (at least the first) in the sorted series, and what is proved of it
  below is the defining property of a percentile. For an empty series, and for a
  percentile outside \<open>0\<dots>100\<close>, there is no number and the model returns an error.
\<close>

definition double_sided_trim :: "real list \<Rightarrow> nat \<Rightarrow> real list" where
  "double_sided_trim xs p =
     (let k = length xs * p div 100
      in take (length xs - 2 * k) (drop k (sort xs)))"

definition nearest_rank :: "nat \<Rightarrow> nat \<Rightarrow> nat" where
  "nearest_rank n p = max 1 ((n * p + 99) div 100)"

definition percentile_value :: "real list \<Rightarrow> nat \<Rightarrow> real" where
  "percentile_value xs p = sort xs ! (nearest_rank (length xs) p - 1)"

definition ms_from_spec :: ms_functions where
  "ms_from_spec =
     \<lparr>Percentile = (\<lambda>xs p.
        if xs = [] then Inl (Error ''percentile of an empty series'')
        else if p < 0 \<or> 100 < p then Inl (Error ''percentile outside 0..100'')
        else Inr (percentile_value xs (nat p))),
      DoubleSidedTrim = (\<lambda>xs p. Inr (double_sided_trim xs p)),
      CalculateAverage = (\<lambda>xs.
        if xs = [] then Inl (Error ''average of an empty series'')
        else Inr (arithmetic_mean xs))\<rparr>"

text \<open>
  The lines main prints on standard output, without the debugging output. The formatted
  numbers are carried as values; the quality-attenuation block and the extended statistics
  are single entries.
\<close>

datatype output_line =
  QualityAttenuationStatistics
| EstimatesNotice
| RpmP90 "real option"
| RpmTrimmedMean "real option"
| DownloadLine real real int
| UploadLine real real int
| ExtendedStatsRepr

definition print_results ::
  "('ts, 'ps) environment \<Rightarrow> bool \<Rightarrow> ('ts, 'ps) orchestrator \<Rightarrow>
     real option \<Rightarrow> real option \<Rightarrow> output_line list" where
  "print_results env testRanToStability s p90Rpm meanRpm =
     (if printQualityAttenuation env then [QualityAttenuationStatistics] else [])
     @ (if \<not> testRanToStability then [EstimatesNotice] else [])
     @ [RpmP90 p90Rpm,
        RpmTrimmedMean meanRpm,
        DownloadLine (ToMbps (lastDownloadThroughputRate s)) (ToMBps (lastDownloadThroughputRate s))
          (lastDownloadThroughputOpenConnectionCount s),
        UploadLine (ToMbps (lastUploadThroughputRate s)) (ToMBps (lastUploadThroughputRate s))
          (lastUploadThroughputOpenConnectionCount s)]
     @ (if calculateExtendedStats env then [ExtendedStatsRepr] else [])"

subsection \<open>main, from the loop to the printed results\<close>

record 'c run =
  testRanToStability :: bool
  actions :: "'c action list"
  stdout :: "output_line list"
  panicked :: "failure option"

text \<open>The part of main after the loop, from the state in which the loop was left.\<close>

definition after_loop ::
  "('ts, 'ps) environment \<Rightarrow> 'c LoadGeneratingConnectionCollection \<Rightarrow>
     ('ts, 'ps) orchestrator \<Rightarrow> 'c run" where
  "after_loop env downloadCollection s =
     (let ran = (downloadThroughputIsStable s \<and> uploadThroughputIsStable s
                 \<and> responsivenessIsStable s)
      in case teardown env downloadCollection of
           (Some f, acts, c) \<Rightarrow>
             \<lparr>testRanToStability = ran, actions = acts, stdout = [], panicked = Some f\<rparr>
         | (None, acts, c) \<Rightarrow>
             (case calculate_rpm (ms env) s of
                Inl f \<Rightarrow>
                  \<lparr>testRanToStability = ran, actions = acts, stdout = [], panicked = Some f\<rparr>
              | Inr (p90Rpm, meanRpm) \<Rightarrow>
                  \<lparr>testRanToStability = ran, actions = acts,
                   stdout = print_results env ran s p90Rpm meanRpm, panicked = None\<rparr>))"

text \<open>
  main, given the environment, the stabilizers as constructed, the download collection as
  it is at teardown, and the events the loop receives. \<open>None\<close>: the loop has not been
  left with these events. Otherwise the way the loop ended and, when it was left, the rest
  of the run.
\<close>

definition main ::
  "('ts, 'ps) environment \<Rightarrow> 'ts \<Rightarrow> 'ts \<Rightarrow> 'ps \<Rightarrow> 'c LoadGeneratingConnectionCollection \<Rightarrow>
     event list \<Rightarrow> (failure + loop_exit \<times> 'c run) option" where
  "main env dst ust pst downloadCollection evs =
     (case measurement_loop (startup env) (initial_orchestrator dst ust pst) evs of
        None \<Rightarrow> None
      | Some (Inl f) \<Rightarrow> Some (Inl f)
      | Some (Inr (s, ex)) \<Rightarrow> Some (Inr (ex, after_loop (startup env) downloadCollection s)))"

subsection \<open>The flags of the loop and the stabilizers\<close>


subsection \<open>An environment to run the model in\<close>

text \<open>
  Implementations of the parameters, for evaluating the model on concrete runs. The
  stabilizers are not the repository's: they count their measurements. The statistics are
  those of the specification.
\<close>

definition counting_throughput_stabilizer :: "(nat, ThroughputDataPoint) stabilizer" where
  "counting_throughput_stabilizer =
     \<lparr>AddMeasurement = (\<lambda>n m. Suc n), IsStable = (\<lambda>n. 2 \<le> n)\<rparr>"

definition counting_probe_stabilizer :: "(nat, ProbeDataPoint) stabilizer" where
  "counting_probe_stabilizer =
     \<lparr>AddMeasurement = (\<lambda>n p. Suc n), IsStable = (\<lambda>n. 3 \<le> n)\<rparr>"

definition example_environment :: "(nat, nat) environment" where
  "example_environment =
     \<lparr>throughputStabilizerMethods = counting_throughput_stabilizer,
      probeStabilizerMethods = counting_probe_stabilizer,
      ms = ms_from_spec,
      ExtendedStatsAvailable = True,
      calculateExtendedStats = True,
      printQualityAttenuation = True\<rparr>"

definition foreign_probe_600ms :: ProbeDataPoint where
  "foreign_probe_600ms = \<lparr>Type = Foreign, Duration = 600000000, RoundTripCount = 3\<rparr>"

definition self_down_probe_100ms :: ProbeDataPoint where
  "self_down_probe_100ms = \<lparr>Type = SelfDown, Duration = 100000000, RoundTripCount = 1\<rparr>"

definition self_up_probe_300ms :: ProbeDataPoint where
  "self_up_probe_300ms = \<lparr>Type = SelfUp, Duration = 300000000, RoundTripCount = 1\<rparr>"

definition throughput_100 :: ThroughputDataPoint where
  "throughput_100 = \<lparr>Throughput = 100, Connections = 4\<rparr>"

definition stable_run :: "event list" where
  "stable_run =
     [ProbeMeasurement foreign_probe_600ms,
      ProbeMeasurement self_down_probe_100ms,
      DownloadThroughputMeasurement throughput_100,
      UploadThroughputMeasurement throughput_100,
      ProbeMeasurement self_up_probe_300ms,
      DownloadThroughputMeasurement throughput_100,
      UploadThroughputMeasurement throughput_100]"

definition timeout_run :: "event list" where
  "timeout_run =
     [ProbeMeasurement foreign_probe_600ms,
      ProbeMeasurement self_down_probe_100ms,
      DownloadThroughputMeasurement throughput_100,
      Timeout]"

definition stable_run_end :: "(nat, nat) orchestrator" where
  "stable_run_end =
     \<lparr>responsivenessIsStable = True,
      downloadThroughputIsStable = True,
      uploadThroughputIsStable = True,
      downloadThroughputStabilizer = 2,
      uploadThroughputStabilizer = 2,
      probeStabilizer = 3,
      selfRtts = [1 / 10, 3 / 10],
      selfRttsQualityAttenuation =
        \<lparr>numberOfSamples = 2, numberOfLosses = 0, offsetSum = 1 / 5,
         offsetSumOfSquares = 1 / 25, empiricalDistribution = [1 / 10, 3 / 10]\<rparr>,
      foreignRtts = [1 / 5, 1 / 5, 1 / 5],
      lastUploadThroughputRate = 100,
      lastUploadThroughputOpenConnectionCount = 4,
      lastDownloadThroughputRate = 100,
      lastDownloadThroughputOpenConnectionCount = 4\<rparr>"

definition timeout_run_end :: "(nat, nat) orchestrator" where
  "timeout_run_end =
     \<lparr>responsivenessIsStable = False,
      downloadThroughputIsStable = False,
      uploadThroughputIsStable = False,
      downloadThroughputStabilizer = 1,
      uploadThroughputStabilizer = 0,
      probeStabilizer = 2,
      selfRtts = [1 / 10],
      selfRttsQualityAttenuation =
        \<lparr>numberOfSamples = 1, numberOfLosses = 0, offsetSum = 0, offsetSumOfSquares = 0,
         empiricalDistribution = [1 / 10]\<rparr>,
      foreignRtts = [1 / 5, 1 / 5, 1 / 5],
      lastUploadThroughputRate = 0,
      lastUploadThroughputOpenConnectionCount = 0,
      lastDownloadThroughputRate = 100,
      lastDownloadThroughputOpenConnectionCount = 4\<rparr>"

text \<open>
  A state with a self series of twenty samples and a foreign series of ten, each with one
  outlier, so that a trim of 10 percent drops samples and changes the mean.
\<close>

definition long_series_end :: "(nat, nat) orchestrator" where
  "long_series_end =
     stable_run_end
       \<lparr>selfRtts := [11 / 10, 3 / 10, 5, 7 / 10, 19 / 10, 1 / 10, 13 / 10, 9 / 10, 17 / 10,
                     1 / 2, 3 / 2, 1 / 5, 3 / 5, 1, 7 / 5, 9 / 5, 2 / 5, 4 / 5, 6 / 5, 8 / 5],
        foreignRtts := [1 / 2, 3, 1 / 10, 9 / 10, 3 / 10, 7 / 10, 1 / 5, 4 / 5, 2 / 5, 3 / 5]\<rparr>"

definition example_collection :: "nat LoadGeneratingConnectionCollection" where
  "example_collection = \<lparr>Lock = False, LGCs = [7, 8]\<rparr>"

chapter \<open>Properties\<close>

section \<open>The connection collection\<close>

lemma Get_unlocked:
  "\<not> Lock c \<Longrightarrow> Get c idx = (Inl (Error ''collection is unlocked''), c)"
  by (simp add: Get_def TryLock_def Unlock_def)

lemma Append_unlocked:
  "\<not> Lock c \<Longrightarrow> Append c conn = (Some (Error ''collection is unlocked''), c)"
  by (simp add: Append_def TryLock_def Unlock_def)

lemma Get_locked:
  "Lock c \<Longrightarrow> Get c idx =
     (if idx > int (length (LGCs c)) then Inl (Error ''index too large'')
      else if 0 \<le> idx \<and> idx < int (length (LGCs c)) then Inr (LGCs c ! nat idx)
      else Inl (Panic ''index out of range''), c)"
  by (simp add: Get_def TryLock_def)

lemma Append_locked:
  "Lock c \<Longrightarrow> Append c conn = (None, c\<lparr>LGCs := LGCs c @ [conn]\<rparr>)"
  by (simp add: Append_def TryLock_def)

lemma LGCs_Get: "LGCs (snd (Get c idx)) = LGCs c"
  by (cases "Lock c") (simp_all add: Get_unlocked Get_locked)

lemma LGCs_Append:
  "LGCs (snd (Append c conn)) = (if Lock c then LGCs c @ [conn] else LGCs c)"
  by (cases "Lock c") (simp_all add: Append_unlocked Append_locked)

lemma LGCs_apply_collection_op: "prefix (LGCs c) (LGCs (apply_collection_op c op))"
  by (cases op) (simp_all add: LGCs_Get LGCs_Append split: sum.splits)

lemma LGCs_run_collection_ops: "prefix (LGCs c) (LGCs (run_collection_ops c ops))"
proof (induction ops arbitrary: c)
  case Nil
  show ?case by simp
next
  case (Cons op ops)
  have "prefix (LGCs c) (LGCs (apply_collection_op c op))"
    by (rule LGCs_apply_collection_op)
  also have "prefix \<dots> (LGCs (run_collection_ops (apply_collection_op c op) ops))"
    by (rule Cons.IH)
  finally show ?case by simp
qed

text \<open>
  C7. \<^verbatim>\<open>Get\<close> and \<^verbatim>\<open>Append\<close> return the error "collection is unlocked" whenever
  the mutex is not locked at the call (their \<^verbatim>\<open>TryLock\<close> succeeds), and then the
  collection, mutex included, is exactly as before. A read that yields an element and an
  append that changes the slice happen only with the mutex locked; with it locked,
  \<^verbatim>\<open>Append\<close> returns \<^verbatim>\<open>nil\<close> and adds the connection at the end. The mutex has
  no owner, so "the caller holds the lock" is what \<^verbatim>\<open>TryLock\<close> can see: the mutex
  is locked.
\<close>

theorem Get_Append_need_locked_mutex:
  "(\<not> Lock c \<longrightarrow> Get c idx = (Inl (Error ''collection is unlocked''), c)
                 \<and> Append c conn = (Some (Error ''collection is unlocked''), c))
   \<and> ((\<exists>x. fst (Get c idx) = Inr x) \<longrightarrow> Lock c)
   \<and> (LGCs (snd (Append c conn)) \<noteq> LGCs c \<longrightarrow> Lock c)
   \<and> (Lock c \<longrightarrow> Append c conn = (None, c\<lparr>LGCs := LGCs c @ [conn]\<rparr>))"
  by (cases "Lock c") (simp_all add: Get_unlocked Append_unlocked Append_locked)

theorem Get_Append_need_locked_mutex_witness:
  "\<not> Lock \<lparr>Lock = False, LGCs = [10, 20 :: nat]\<rparr>
   \<and> Get \<lparr>Lock = False, LGCs = [10, 20 :: nat]\<rparr> 1
       = (Inl (Error ''collection is unlocked''), \<lparr>Lock = False, LGCs = [10, 20]\<rparr>)
   \<and> Append \<lparr>Lock = False, LGCs = [10, 20 :: nat]\<rparr> 30
       = (Some (Error ''collection is unlocked''), \<lparr>Lock = False, LGCs = [10, 20]\<rparr>)
   \<and> Lock \<lparr>Lock = True, LGCs = [10, 20 :: nat]\<rparr>
   \<and> fst (Get \<lparr>Lock = True, LGCs = [10, 20 :: nat]\<rparr> 1) = Inr 20
   \<and> Append \<lparr>Lock = True, LGCs = [10, 20 :: nat]\<rparr> 30
       = (None, \<lparr>Lock = True, LGCs = [10, 20, 30]\<rparr>)"
  using Get_Append_need_locked_mutex [of "\<lparr>Lock = False, LGCs = [10, 20 :: nat]\<rparr>" 1 30]
    Get_Append_need_locked_mutex [of "\<lparr>Lock = True, LGCs = [10, 20 :: nat]\<rparr>" 1 30]
  by (simp add: Get_def TryLock_def)

text \<open>
  C8. A successful \<^verbatim>\<open>Append\<close> makes the collection one longer and keeps every earlier
  element at its index. Over any sequence of \<^verbatim>\<open>Get\<close>, \<^verbatim>\<open>Append\<close>, \<^verbatim>\<open>Len\<close> and
  lock operations, whether they succeed or fail, the slice at the start is a prefix of the
  slice at the end: nothing is removed or reordered, and the length does not decrease.
\<close>

theorem collection_append_only:
  "(fst (Append c conn) = None \<longrightarrow>
      Len (snd (Append c conn)) = Len c + 1
      \<and> take (length (LGCs c)) (LGCs (snd (Append c conn))) = LGCs c)
   \<and> prefix (LGCs c) (LGCs (run_collection_ops c ops))
   \<and> Len c \<le> Len (run_collection_ops c ops)"
proof -
  have "prefix (LGCs c) (LGCs (run_collection_ops c ops))"
    by (rule LGCs_run_collection_ops)
  moreover from this have "Len c \<le> Len (run_collection_ops c ops)"
    by (simp add: Len_def prefix_length_le)
  moreover have "fst (Append c conn) = None \<longrightarrow>
      Len (snd (Append c conn)) = Len c + 1
      \<and> take (length (LGCs c)) (LGCs (snd (Append c conn))) = LGCs c"
    by (cases "Lock c") (simp_all add: Append_unlocked Append_locked Len_def)
  ultimately show ?thesis by simp
qed

theorem collection_append_only_witness:
  "fst (Append \<lparr>Lock = True, LGCs = [10, 20 :: nat]\<rparr> 30) = None
   \<and> Len (snd (Append \<lparr>Lock = True, LGCs = [10, 20 :: nat]\<rparr> 30)) = 3
   \<and> LGCs (run_collection_ops \<lparr>Lock = True, LGCs = [10, 20 :: nat]\<rparr>
        [OpAppend 30, OpGet 0, OpUnlock, OpAppend 40, OpGet 7, OpLen, OpLock, OpAppend 50])
       = [10, 20, 30, 50]
   \<and> prefix [10, 20 :: nat] [10, 20, 30, 50]"
  using collection_append_only [of "\<lparr>Lock = True, LGCs = [10, 20 :: nat]\<rparr>" 30
    "[OpAppend 30, OpGet 0, OpUnlock, OpAppend 40, OpGet 7, OpLen, OpLock, OpAppend 50]"]
  by (simp add: Append_def Get_def TryLock_def Unlock_def Len_def)

text \<open>
  C9. With the mutex locked and \<open>n\<close> connections in the collection, \<^verbatim>\<open>Get\<close> answers
  "index too large" exactly for \<open>idx > n\<close>; \<^verbatim>\<open>Get(n)\<close> passes that check and the slice
  access panics; an element is returned exactly for \<open>0 \<le> idx < n\<close>, and it is the one at
  that index.
\<close>

theorem Get_bounds_check_off_by_one:
  assumes "Lock c"
  shows "(fst (Get c idx) = Inl (Error ''index too large'') \<longleftrightarrow> idx > Len c)
    \<and> fst (Get c (Len c)) = Inl (Panic ''index out of range'')
    \<and> ((\<exists>x. fst (Get c idx) = Inr x) \<longleftrightarrow> 0 \<le> idx \<and> idx < Len c)
    \<and> (0 \<le> idx \<and> idx < Len c \<longrightarrow> fst (Get c idx) = Inr (LGCs c ! nat idx))"
  using assms by (auto simp add: Get_locked Len_def)

theorem Get_bounds_check_off_by_one_witness:
  "Lock \<lparr>Lock = True, LGCs = [10, 20 :: nat]\<rparr>
   \<and> Len \<lparr>Lock = True, LGCs = [10, 20 :: nat]\<rparr> = 2
   \<and> fst (Get \<lparr>Lock = True, LGCs = [10, 20 :: nat]\<rparr> 2) = Inl (Panic ''index out of range'')
   \<and> fst (Get \<lparr>Lock = True, LGCs = [10, 20 :: nat]\<rparr> 1) = Inr 20
   \<and> fst (Get \<lparr>Lock = True, LGCs = [10, 20 :: nat]\<rparr> 3) = Inl (Error ''index too large'')"
  using Get_bounds_check_off_by_one [of "\<lparr>Lock = True, LGCs = [10, 20 :: nat]\<rparr>" 1]
    Get_bounds_check_off_by_one [of "\<lparr>Lock = True, LGCs = [10, 20 :: nat]\<rparr>" 3]
  by (simp add: Len_def)

section \<open>The percentile helper\<close>

lemma sorted_nth0_Min: "sorted ys \<Longrightarrow> ys \<noteq> [] \<Longrightarrow> ys ! 0 = Min (set ys)"
  by (cases ys) (auto intro!: Min_eqI [symmetric])

lemma percentileIdx_below_100: "0 \<le> p \<Longrightarrow> p < 100 \<Longrightarrow> percentileIdx n p = 0"
  by (simp add: percentileIdx_def go_int_def signed_divide_int_def)

lemma percentileIdx_100: "n < 2 ^ 63 \<Longrightarrow> percentileIdx n 100 = int n"
  by (simp add: percentileIdx_def go_int_def signed_divide_int_def signed_take_bit_int_eq_self)

text \<open>
  C1. For a non-empty slice and a percentile \<open>0 \<le> p < 100\<close>, the quotient \<open>p / 100\<close> is
  taken first and is \<open>0\<close>, so \<open>percentileIdx\<close> is \<open>0\<close>: \<^verbatim>\<open>CalculatePercentile\<close> leaves
  the slice sorted and returns its smallest element.
\<close>

theorem CalculatePercentile_below_100_is_minimum:
  assumes "elements \<noteq> []" and "0 \<le> percentile" and "percentile < 100"
  shows "percentileIdx (length elements) percentile = 0
    \<and> CalculatePercentile elements percentile = (sort elements, Inr (Min (set elements)))"
proof -
  from assms(1) have ne: "sort elements \<noteq> []"
    by (metis length_sort length_0_conv)
  have "sort elements ! 0 = Min (set elements)"
    using sorted_nth0_Min [OF sorted_sort ne] by simp
  with assms ne show ?thesis
    by (simp add: CalculatePercentile_def percentileIdx_below_100 Let_def)
qed

theorem CalculatePercentile_below_100_is_minimum_witness:
  "[5, 3, 9 :: int] \<noteq> [] \<and> (0::int) \<le> 90 \<and> (90::int) < 100
   \<and> percentileIdx (length [5, 3, 9 :: int]) 90 = 0
   \<and> CalculatePercentile [5, 3, 9 :: int] 90 = ([3, 5, 9], Inr 3)"
  using CalculatePercentile_below_100_is_minimum [of "[5, 3, 9 :: int]" 90] by simp

text \<open>
  C10. For a non-empty slice (its length a Go \<^verbatim>\<open>int\<close>, so below \<open>2^63\<close>) and
  percentile \<open>100\<close>, \<open>percentileIdx\<close> is the length of the slice, one past its last
  index: the slice is sorted and the indexing panics, so no value is returned.
\<close>

theorem CalculatePercentile_100_panics:
  assumes "elements \<noteq> []" and "length elements < 2 ^ 63"
  shows "percentileIdx (length elements) 100 = int (length elements)
    \<and> CalculatePercentile elements 100 = (sort elements, Inl (Panic ''index out of range''))"
  using assms by (simp add: CalculatePercentile_def percentileIdx_100 Let_def)

theorem CalculatePercentile_100_panics_witness:
  "[5, 3, 9 :: int] \<noteq> [] \<and> length [5, 3, 9 :: int] < 2 ^ 63
   \<and> percentileIdx (length [5, 3, 9 :: int]) 100 = 3
   \<and> CalculatePercentile [5, 3, 9 :: int] 100 = ([3, 5, 9], Inl (Panic ''index out of range''))"
  using CalculatePercentile_100_panics [of "[5, 3, 9 :: int]"] by simp

section \<open>Quality attenuation\<close>

lemma numberOfSamples_AddSamples:
  "numberOfSamples (AddSamples qa xs)
     = numberOfSamples qa + int (length (filter (\<lambda>x. 0 \<le> x) xs))"
  by (induction xs arbitrary: qa) (auto simp: AddSample_def)

lemma numberOfLosses_AddSamples:
  "numberOfLosses (AddSamples qa xs)
     = numberOfLosses qa + int (length (filter (\<lambda>x. latencyEqLossThreshold < x) xs))"
  by (induction xs arbitrary: qa) (auto simp: AddSample_def latencyEqLossThreshold_def)

lemma empiricalDistribution_AddSamples:
  "empiricalDistribution (AddSamples qa xs)
     = empiricalDistribution qa @ filter (\<lambda>x. 0 \<le> x \<and> x \<le> latencyEqLossThreshold) xs"
  by (induction xs arbitrary: qa) (auto simp: AddSample_def)

lemma offsetSum_AddSamples:
  "offsetSum (AddSamples qa xs)
     = offsetSum qa
       + (\<Sum>x\<leftarrow>filter (\<lambda>x. 0 \<le> x \<and> x \<le> latencyEqLossThreshold) xs. x - latencyOffset)"
  by (induction xs arbitrary: qa) (auto simp: AddSample_def)

text \<open>
  The model against \<^verbatim>\<open>TestManySamples\<close>: the test asserts \<open>160000 - 1\<close> samples,
  \<open>10000 - 1\<close> losses ("samples from 15.0001 to 16.0 are lost") and an offset sum of
  \<open>1110007.5\<close>. The sample \<open>15.0\<close> of the ramp is therefore live: with a loss at
  \<open>\<ge> 15\<close> the test would count \<open>10000\<close> losses.
\<close>

lemma ramp_nonneg: "filter (\<lambda>x. 0 \<le> x) TestManySamples_ramp = TestManySamples_ramp"
  by (simp add: TestManySamples_ramp_def)

lemma ramp_losses:
  "length (filter (\<lambda>x. latencyEqLossThreshold < x) TestManySamples_ramp) = 9999"
proof -
  have "length (filter (\<lambda>x. latencyEqLossThreshold < x) TestManySamples_ramp)
      = length (filter (\<lambda>i::nat. 150000 < i) [1..<160000])"
    by (simp add: TestManySamples_ramp_def filter_map comp_def latencyEqLossThreshold_def
        pos_less_divide_eq)
  also have "\<dots> = card ({i. 150000 < i} \<inter> {1..<160000::nat})"
    by (simp add: distinct_length_filter)
  also have "{i. 150000 < i} \<inter> {1..<160000::nat} = {150001..<160000}"
    by auto
  finally show ?thesis by simp
qed

lemma ramp_offsetSum:
  "(\<Sum>x\<leftarrow>filter (\<lambda>x. 0 \<le> x \<and> x \<le> latencyEqLossThreshold) TestManySamples_ramp.
      x - latencyOffset) = 11100075 / 10"
proof -
  let ?g = "\<lambda>i::nat. real i / 10000 - 1 / 10"
  have "(\<Sum>x\<leftarrow>filter (\<lambda>x. 0 \<le> x \<and> x \<le> latencyEqLossThreshold) TestManySamples_ramp.
           x - latencyOffset)
      = (\<Sum>i\<leftarrow>filter (\<lambda>i::nat. i \<le> 150000) [1..<160000]. ?g i)"
    by (simp add: TestManySamples_ramp_def filter_map comp_def latencyEqLossThreshold_def
        latencyOffset_def pos_divide_le_eq)
  also have "\<dots> = sum ?g ({i. i \<le> 150000} \<inter> {1..<160000})"
    by (subst sum_list_distinct_conv_sum_set) (auto intro: arg_cong2 [where f = sum])
  also have "{i. i \<le> 150000} \<inter> {1..<160000::nat} = {1..<150001}"
    by auto
  also have "sum ?g {1..<150001} = real (\<Sum>{1..<150001::nat}) / 10000 - 150000 / 10"
    by (simp add: sum_subtractf sum_divide_distrib [symmetric])
  also have "\<Sum>{1..<150001::nat} = 11250075000"
    by (simp add: Sum_Ico_nat)
  finally show ?thesis by simp
qed

lemma TestManySamples_counts:
  "numberOfSamples (AddSamples NewSimpleQualityAttenuation TestManySamples_ramp) = 160000 - 1
   \<and> numberOfLosses (AddSamples NewSimpleQualityAttenuation TestManySamples_ramp) = 10000 - 1"
  by (simp add: numberOfSamples_AddSamples numberOfLosses_AddSamples ramp_losses ramp_nonneg)
     (simp add: NewSimpleQualityAttenuation_def TestManySamples_ramp_def)

lemma TestManySamples_offsetSum:
  "offsetSum (AddSamples NewSimpleQualityAttenuation TestManySamples_ramp) = 11100075 / 10"
  by (simp add: offsetSum_AddSamples ramp_offsetSum) (simp add: NewSimpleQualityAttenuation_def)

lemma TestBasicSimpleQualityAttenuation_aggregates:
  "numberOfSamples (AddSamples NewSimpleQualityAttenuation [1, 2, 3]) = 3
   \<and> numberOfLosses (AddSamples NewSimpleQualityAttenuation [1, 2, 3]) = 0
   \<and> offsetSum (AddSamples NewSimpleQualityAttenuation [1, 2, 3]) = 57 / 10
   \<and> offsetSumOfSquares (AddSamples NewSimpleQualityAttenuation [1, 2, 3]) = 1283 / 100"
  by (simp add: AddSample_def NewSimpleQualityAttenuation_def latencyEqLossThreshold_def
      latencyOffset_def power2_eq_square)

text \<open>
  C4, as stated, fails at the threshold itself: a sample of exactly 15 s is not counted as
  a loss; it enters the empirical distribution and the offset aggregates.
\<close>

theorem AddSample_15_is_not_a_loss:
  "(15::real) \<ge> 15
   \<and> numberOfLosses (snd (AddSample NewSimpleQualityAttenuation 15))
       = numberOfLosses NewSimpleQualityAttenuation
   \<and> empiricalDistribution (snd (AddSample NewSimpleQualityAttenuation 15)) = [15]
   \<and> offsetSum (snd (AddSample NewSimpleQualityAttenuation 15)) = 149 / 10"
  by (simp add: AddSample_def NewSimpleQualityAttenuation_def latencyEqLossThreshold_def
      latencyOffset_def)

text \<open>
  C4, amended. A sample above 15 s is accepted, counted as a sample and as a loss, and
  leaves the empirical distribution and both offset aggregates as they were. A sample
  from 0 s to 15 s inclusive is accepted and counted as a sample and not as a loss; it is
  added to the empirical distribution, and the sample less the offset and its square are
  added to the offset aggregates.
\<close>

theorem AddSample_loss_above_threshold:
  "(15 < sample \<longrightarrow>
      fst (AddSample qa sample) = None
      \<and> numberOfSamples (snd (AddSample qa sample)) = numberOfSamples qa + 1
      \<and> numberOfLosses (snd (AddSample qa sample)) = numberOfLosses qa + 1
      \<and> empiricalDistribution (snd (AddSample qa sample)) = empiricalDistribution qa
      \<and> offsetSum (snd (AddSample qa sample)) = offsetSum qa
      \<and> offsetSumOfSquares (snd (AddSample qa sample)) = offsetSumOfSquares qa)
   \<and> (0 \<le> sample \<and> sample \<le> 15 \<longrightarrow>
      fst (AddSample qa sample) = None
      \<and> numberOfSamples (snd (AddSample qa sample)) = numberOfSamples qa + 1
      \<and> numberOfLosses (snd (AddSample qa sample)) = numberOfLosses qa
      \<and> empiricalDistribution (snd (AddSample qa sample)) = empiricalDistribution qa @ [sample]
      \<and> offsetSum (snd (AddSample qa sample)) = offsetSum qa + (sample - 1 / 10)
      \<and> offsetSumOfSquares (snd (AddSample qa sample))
          = offsetSumOfSquares qa + (sample - 1 / 10)\<^sup>2)"
  by (simp add: AddSample_def latencyEqLossThreshold_def latencyOffset_def)

theorem AddSample_loss_above_threshold_witness:
  "(15::real) < 16
   \<and> numberOfLosses (snd (AddSample NewSimpleQualityAttenuation 16)) = 1
   \<and> empiricalDistribution (snd (AddSample NewSimpleQualityAttenuation 16)) = []
   \<and> (0::real) \<le> 2 \<and> (2::real) \<le> 15
   \<and> numberOfLosses (snd (AddSample NewSimpleQualityAttenuation 2)) = 0
   \<and> empiricalDistribution (snd (AddSample NewSimpleQualityAttenuation 2)) = [2]
   \<and> offsetSum (snd (AddSample NewSimpleQualityAttenuation 2)) = 19 / 10"
  using AddSample_loss_above_threshold [of 16 NewSimpleQualityAttenuation]
    AddSample_loss_above_threshold [of 2 NewSimpleQualityAttenuation]
  by (simp add: NewSimpleQualityAttenuation_def)

section \<open>The orchestrator\<close>

subsection \<open>The two example runs, evaluated\<close>

lemmas example_defs = example_environment_def counting_throughput_stabilizer_def
  counting_probe_stabilizer_def ms_from_spec_def foreign_probe_600ms_def
  self_down_probe_100ms_def self_up_probe_300ms_def throughput_100_def

lemma startup_example: "startup example_environment = example_environment"
  by (simp add: startup_def example_environment_def)

lemma stable_run_loop:
  "measurement_loop (startup example_environment) (initial_orchestrator 0 0 0) stable_run
     = Some (Inr (stable_run_end, ConditionFailed))"
  unfolding startup_example
  by (simp add: stable_run_def stable_run_end_def initial_orchestrator_def
      example_defs on_probeMeasurement_def on_downloadThroughputMeasurement_def
      on_uploadThroughputMeasurement_def Iota_def go_int_def Seconds_def AddElement_def
      AddSample_def NewSimpleQualityAttenuation_def latencyEqLossThreshold_def
      latencyOffset_def Let_def upto.simps power2_eq_square)

lemma timeout_run_loop:
  "measurement_loop (startup example_environment) (initial_orchestrator 0 0 0) timeout_run
     = Some (Inr (timeout_run_end, BreakTimeout))"
  unfolding startup_example
  by (simp add: timeout_run_def timeout_run_end_def initial_orchestrator_def
      example_defs on_probeMeasurement_def on_downloadThroughputMeasurement_def
      on_uploadThroughputMeasurement_def Iota_def go_int_def Seconds_def AddElement_def
      AddSample_def NewSimpleQualityAttenuation_def latencyEqLossThreshold_def
      latencyOffset_def Let_def upto.simps power2_eq_square)



subsection \<open>Probe measurements and the latency series\<close>

lemma add_foreign_rtts_replicate:
  "add_foreign_rtts is p series
     = series @ replicate (length is) (Seconds (Duration p) / real (RoundTripCount p))"
  by (induction "is" arbitrary: series)
     (simp_all add: AddElement_def replicate_app_Cons_same)

lemma Iota_from_0: "k < 2 ^ 63 \<Longrightarrow> Iota 0 (go_int (int k)) = Inr [0..int k - 1]"
  by (simp add: Iota_def go_int_def signed_take_bit_int_eq_self)

text \<open>
  C5. A foreign probe measurement with round-trip count \<open>k \<ge> 1\<close> (a count that fits a Go
  \<^verbatim>\<open>int\<close>) and duration \<open>d\<close> adds exactly \<open>k\<close> elements to the foreign series, each
  \<open>d / k\<close> seconds, which sum to \<open>d\<close>, and leaves the self series alone. A self-down or
  self-up measurement adds the one full duration to the self series and leaves the foreign
  series alone. Durations are real numbers of seconds.
\<close>

theorem probe_measurement_extends_series:
  "(Type p = Foreign \<and> 1 \<le> RoundTripCount p \<and> RoundTripCount p < 2 ^ 63 \<longrightarrow>
      (\<exists>s'. on_probeMeasurement env s p = Inr s'
         \<and> foreignRtts s' = foreignRtts s
              @ replicate (RoundTripCount p) (Seconds (Duration p) / real (RoundTripCount p))
         \<and> sum_list (replicate (RoundTripCount p) (Seconds (Duration p) / real (RoundTripCount p)))
              = Seconds (Duration p)
         \<and> selfRtts s' = selfRtts s))
   \<and> (Type p = SelfDown \<or> Type p = SelfUp \<longrightarrow>
      (\<exists>s'. on_probeMeasurement env s p = Inr s'
         \<and> selfRtts s' = selfRtts s @ [Seconds (Duration p)]
         \<and> foreignRtts s' = foreignRtts s))"
  by (auto simp add: on_probeMeasurement_def Let_def Iota_from_0 add_foreign_rtts_replicate
      sum_list_replicate AddElement_def)

theorem probe_measurement_extends_series_witness:
  "Type foreign_probe_600ms = Foreign
   \<and> 1 \<le> RoundTripCount foreign_probe_600ms \<and> RoundTripCount foreign_probe_600ms < 2 ^ 63
   \<and> map_sum id foreignRtts
        (on_probeMeasurement example_environment (initial_orchestrator 0 0 0) foreign_probe_600ms)
       = Inr [1 / 5, 1 / 5, 1 / 5]
   \<and> sum_list [1 / 5, 1 / 5, 1 / 5 :: real] = Seconds (Duration foreign_probe_600ms)
   \<and> Type self_up_probe_300ms = SelfUp
   \<and> map_sum id selfRtts
        (on_probeMeasurement example_environment (initial_orchestrator 0 0 0) self_up_probe_300ms)
       = Inr [3 / 10]
   \<and> map_sum id foreignRtts
        (on_probeMeasurement example_environment (initial_orchestrator 0 0 0) self_up_probe_300ms)
       = Inr []"
  using probe_measurement_extends_series
          [of foreign_probe_600ms example_environment "initial_orchestrator 0 0 0"]
        probe_measurement_extends_series
          [of self_up_probe_300ms example_environment "initial_orchestrator 0 0 0"]
  by (auto simp add: foreign_probe_600ms_def self_up_probe_300ms_def initial_orchestrator_def
      Seconds_def numeral_3_eq_3)

subsection \<open>Teardown\<close>

lemma Get_locked_in_range:
  "Lock c \<Longrightarrow> 0 \<le> i \<Longrightarrow> i < Len c \<Longrightarrow> Get c i = (Inr (LGCs c ! nat i), c)"
  by (simp add: Get_locked Len_def)

lemma incorporate_loop_locked:
  "Lock c \<Longrightarrow> 0 \<le> i \<Longrightarrow>
     incorporate_loop c i = (None, map IncorporateConnectionStats (drop (nat i) (LGCs c)), c)"
proof (induction c i rule: incorporate_loop.induct)
  case (1 c i)
  show ?case
  proof (cases "i < Len c")
    case True
    with "1.prems" have get: "Get c i = (Inr (LGCs c ! nat i), c)"
      by (simp add: Get_locked_in_range)
    from True "1.prems" have lt: "nat i < length (LGCs c)"
      by (simp add: Len_def)
    have "incorporate_loop c (i + 1)
        = (None, map IncorporateConnectionStats (drop (nat (i + 1)) (LGCs c)), c)"
      using "1.IH" [OF True get [symmetric] refl] "1.prems" by simp
    moreover have "drop (nat i) (LGCs c) = LGCs c ! nat i # drop (nat (i + 1)) (LGCs c)"
      using lt "1.prems" by (simp add: Cons_nth_drop_Suc nat_add_distrib)
    ultimately show ?thesis
      using True get by (subst incorporate_loop.simps) simp
  next
    case False
    then show ?thesis
      by (subst incorporate_loop.simps) (simp add: Len_def)
  qed
qed

lemma gather_extended_stats_eq:
  "gather_extended_stats c
     = (None, map IncorporateConnectionStats (LGCs c), c\<lparr>Lock := False\<rparr>)"
  by (simp add: gather_extended_stats_def incorporate_loop_locked Unlock_def)

lemma teardown_startup:
  "teardown (startup env) c =
     (None,
      [proberOperatorCtxCancel, downloadLoadGeneratorOperatorCtxCancel,
       uploadLoadGeneratorOperatorCtxCancel]
      @ (if calculateExtendedStats env \<and> ExtendedStatsAvailable env
         then map IncorporateConnectionStats (LGCs c) else [])
      @ [networkActivityCtxCancel, operatingCtxCancel],
      if calculateExtendedStats env \<and> ExtendedStatsAvailable env then c\<lparr>Lock := False\<rparr> else c)"
  by (auto simp add: teardown_def startup_def gather_extended_stats_eq Let_def)

lemma actions_after_loop:
  "actions (after_loop (startup env) c s) =
      [proberOperatorCtxCancel, downloadLoadGeneratorOperatorCtxCancel,
       uploadLoadGeneratorOperatorCtxCancel]
      @ (if calculateExtendedStats env \<and> ExtendedStatsAvailable env
         then map IncorporateConnectionStats (LGCs c) else [])
      @ [networkActivityCtxCancel, operatingCtxCancel]"
  by (simp add: after_loop_def teardown_startup Let_def split: sum.splits prod.splits)

text \<open>
  C6. However the loop is left, by its condition or by the timeout, main then does, in
  this order: the cancellation of the prober operator, of the download and of the upload
  load-generator operator; the gathering of the extended statistics of every download
  connection, when they were asked for and the platform has them; the cancellation of the
  network activity; the cancellation of the operating context. The network activity is
  cancelled after the three operators in every run.
\<close>

theorem teardown_order:
  assumes "main env dst ust pst c evs = Some (Inr (ex, r))"
  shows "actions r =
      [proberOperatorCtxCancel, downloadLoadGeneratorOperatorCtxCancel,
       uploadLoadGeneratorOperatorCtxCancel]
      @ (if calculateExtendedStats env \<and> ExtendedStatsAvailable env
         then map IncorporateConnectionStats (LGCs c) else [])
      @ [networkActivityCtxCancel, operatingCtxCancel]"
proof -
  from assms obtain s where "r = after_loop (startup env) c s"
    by (auto simp: main_def split: option.splits sum.splits)
  then show ?thesis
    by (simp only: actions_after_loop)
qed

theorem teardown_order_witness:
  "main example_environment 0 0 0 example_collection stable_run
     = Some (Inr (ConditionFailed,
         after_loop (startup example_environment) example_collection stable_run_end))
   \<and> actions (after_loop (startup example_environment) example_collection
        stable_run_end)
       = [proberOperatorCtxCancel, downloadLoadGeneratorOperatorCtxCancel,
          uploadLoadGeneratorOperatorCtxCancel,
          IncorporateConnectionStats 7, IncorporateConnectionStats 8,
          networkActivityCtxCancel, operatingCtxCancel]
   \<and> main example_environment 0 0 0 example_collection timeout_run
     = Some (Inr (BreakTimeout,
         after_loop (startup example_environment) example_collection timeout_run_end))
   \<and> actions (after_loop (startup example_environment) example_collection
        timeout_run_end)
       = [proberOperatorCtxCancel, downloadLoadGeneratorOperatorCtxCancel,
          uploadLoadGeneratorOperatorCtxCancel,
          IncorporateConnectionStats 7, IncorporateConnectionStats 8,
          networkActivityCtxCancel, operatingCtxCancel]"
proof -
  let ?c = example_collection
  have stable: "main example_environment 0 0 0 ?c stable_run
     = Some (Inr (ConditionFailed, after_loop (startup example_environment) ?c stable_run_end))"
    by (simp add: main_def stable_run_loop)
  have timeout: "main example_environment 0 0 0 ?c timeout_run
     = Some (Inr (BreakTimeout, after_loop (startup example_environment) ?c timeout_run_end))"
    by (simp add: main_def timeout_run_loop)
  show ?thesis
    using stable timeout teardown_order [OF stable] teardown_order [OF timeout]
    by (simp add: example_environment_def example_collection_def)
qed

subsection \<open>Stability\<close>







lemma startup_fields:
  "throughputStabilizerMethods (startup env) = throughputStabilizerMethods env"
  "probeStabilizerMethods (startup env) = probeStabilizerMethods env"
  "ms (startup env) = ms env"
  "printQualityAttenuation (startup env) = printQualityAttenuation env"
  by (simp_all add: startup_def)

lemma after_loop_startup:
  "after_loop (startup env) c s =
     (case calculate_rpm (ms env) s of
        Inl f \<Rightarrow>
          \<lparr>testRanToStability = (downloadThroughputIsStable s \<and> uploadThroughputIsStable s
                                  \<and> responsivenessIsStable s),
           actions = actions (after_loop (startup env) c s), stdout = [], panicked = Some f\<rparr>
      | Inr (p90Rpm, meanRpm) \<Rightarrow>
          \<lparr>testRanToStability = (downloadThroughputIsStable s \<and> uploadThroughputIsStable s
                                  \<and> responsivenessIsStable s),
           actions = actions (after_loop (startup env) c s),
           stdout = print_results (startup env)
                      (downloadThroughputIsStable s \<and> uploadThroughputIsStable s
                       \<and> responsivenessIsStable s) s p90Rpm meanRpm,
           panicked = None\<rparr>)"
  by (simp add: after_loop_def teardown_startup startup_fields Let_def
      split: sum.splits prod.splits)

text \<open>
  The deadline ends the loop: once the timeout channel is selected the loop is left,
  whatever the stabilizers say (unless a panic ended the program before).
\<close>

lemma measurement_loop_left_at_timeout:
  "Timeout \<in> set evs \<Longrightarrow> measurement_loop env s evs \<noteq> None"
proof (induction evs arbitrary: s)
  case Nil
  then show ?case by simp
next
  case (Cons ev evs)
  then show ?case
    by (cases ev) (auto split: sum.splits)
qed



subsection \<open>The reported RPM\<close>

lemma arithmetic_mean_pair: "arithmetic_mean [a, b] = (a + b) / 2"
  by (simp add: arithmetic_mean_def)

text \<open>
  The statistics of the specification, characterised: the trim splits the sorted series
  into the lowest samples, the kept ones and the highest samples, and the nearest-rank
  percentile is a sample with the required shares of the series on either side.
\<close>

lemma double_sided_trim_split:
  assumes "2 * (length xs * p div 100) \<le> length xs"
  shows "sort xs = take (length xs * p div 100) (sort xs) @ double_sided_trim xs p
                   @ drop (length xs - length xs * p div 100) (sort xs)"
proof -
  define k where "k = length xs * p div 100"
  define zs where "zs = drop k (sort xs)"
  have "length xs - k = (length xs - 2 * k) + k"
    using assms by (simp add: k_def)
  then have "drop (length xs - k) (sort xs) = drop (length xs - 2 * k) zs"
    by (simp only: zs_def drop_drop)
  moreover have "double_sided_trim xs p = take (length xs - 2 * k) zs"
    by (simp add: double_sided_trim_def Let_def k_def zs_def)
  ultimately have "double_sided_trim xs p @ drop (length xs - k) (sort xs) = zs"
    by (simp only: append_take_drop_id)
  then have "take k (sort xs) @ double_sided_trim xs p @ drop (length xs - k) (sort xs)
      = sort xs"
    by (simp only: zs_def append_take_drop_id)
  then show ?thesis
    by (simp only: k_def)
qed

lemma length_double_sided_trim:
  "length (double_sided_trim xs p) = length xs - 2 * (length xs * p div 100)"
  by (simp add: double_sided_trim_def Let_def)

lemma double_sided_trim_bounds:
  assumes "2 * (length xs * p div 100) \<le> length xs"
    and "x \<in> set (double_sided_trim xs p)"
  shows "(\<forall>l \<in> set (take (length xs * p div 100) (sort xs)). l \<le> x)
     \<and> (\<forall>h \<in> set (drop (length xs - length xs * p div 100) (sort xs)). x \<le> h)"
proof -
  have "sorted (take (length xs * p div 100) (sort xs) @ double_sided_trim xs p
                   @ drop (length xs - length xs * p div 100) (sort xs))"
    using double_sided_trim_split [OF assms(1)] sorted_sort [of xs] by simp
  with assms(2) show ?thesis
    by (auto simp: sorted_append)
qed

lemma ceil_div_100:
  "(m::nat) \<le> 100 * max 1 ((m + 99) div 100)"
  "100 * (max 1 ((m + 99) div 100) - 1) \<le> m"
proof -
  have a: "m + 99 = 100 * ((m + 99) div 100) + (m + 99) mod 100"
    by simp
  have b: "(m + 99) mod 100 < 100" by simp
  from a b have c: "m \<le> 100 * ((m + 99) div 100)" by linarith
  then show "m \<le> 100 * max 1 ((m + 99) div 100)"
    by (simp add: max_def)
  from a have d: "100 * ((m + 99) div 100) \<le> m + 99" by linarith
  show "100 * (max 1 ((m + 99) div 100) - 1) \<le> m"
  proof (cases "1 \<le> (m + 99) div 100")
    case True
    then have "max 1 ((m + 99) div 100) = (m + 99) div 100" by simp
    moreover from d True have "100 * ((m + 99) div 100 - 1) \<le> m"
      by (simp add: diff_mult_distrib2)
    ultimately show ?thesis by simp
  next
    case False
    then show ?thesis by (simp add: max_def)
  qed
qed

lemma nearest_rank_bounds:
  assumes "0 < n" and "p \<le> 100"
  shows "1 \<le> nearest_rank n p" and "nearest_rank n p \<le> n"
    and "n * p \<le> 100 * nearest_rank n p"
    and "100 * (nearest_rank n p - 1) \<le> n * p"
proof -
  have "n * p + 99 \<le> n * 100 + 99" using assms(2) by simp
  then have "(n * p + 99) div 100 \<le> (n * 100 + 99) div 100" by (rule div_le_mono)
  then have "(n * p + 99) div 100 \<le> n" by simp
  with assms(1) show "nearest_rank n p \<le> n"
    by (simp add: nearest_rank_def)
  show "1 \<le> nearest_rank n p" by (simp add: nearest_rank_def)
  show "n * p \<le> 100 * nearest_rank n p"
    unfolding nearest_rank_def by (rule ceil_div_100)
  show "100 * (nearest_rank n p - 1) \<le> n * p"
    unfolding nearest_rank_def by (rule ceil_div_100)
qed

lemma length_filter_sort: "length (filter P (sort xs)) = length (filter P (xs :: real list))"
  by (simp add: filter_sort)

lemma sorted_count_le:
  assumes "sorted ys" and "r \<le> length ys" and "1 \<le> r"
  shows "r \<le> length (filter (\<lambda>x. x \<le> ys ! (r - 1)) (ys :: real list))"
proof -
  have "x \<le> ys ! (r - 1)" if "x \<in> set (take r ys)" for x
  proof -
    from that obtain i where i: "i < r" "i < length ys" "x = ys ! i"
      by (auto simp: in_set_conv_nth)
    with assms have "i \<le> r - 1" "r - 1 < length ys" by simp_all
    with assms(1) i(3) show ?thesis by (simp add: sorted_nth_mono)
  qed
  then have "filter (\<lambda>x. x \<le> ys ! (r - 1)) (take r ys) = take r ys"
    by (simp add: filter_id_conv)
  moreover have "length (filter (\<lambda>x. x \<le> ys ! (r - 1)) ys)
      = length (filter (\<lambda>x. x \<le> ys ! (r - 1)) (take r ys))
        + length (filter (\<lambda>x. x \<le> ys ! (r - 1)) (drop r ys))"
    by (metis append_take_drop_id filter_append length_append)
  ultimately show ?thesis using assms(2) by simp
qed

lemma sorted_count_ge:
  assumes "sorted ys" and "r \<le> length ys" and "1 \<le> r"
  shows "length ys - (r - 1) \<le> length (filter (\<lambda>x. ys ! (r - 1) \<le> x) (ys :: real list))"
proof -
  have "ys ! (r - 1) \<le> x" if "x \<in> set (drop (r - 1) ys)" for x
  proof -
    from that obtain i where i: "i < length ys - (r - 1)" "x = ys ! (r - 1 + i)"
      by (auto simp: in_set_conv_nth)
    then have "r - 1 \<le> r - 1 + i" "r - 1 + i < length ys" by simp_all
    with assms(1) i(2) show ?thesis by (simp add: sorted_nth_mono)
  qed
  then have "filter (\<lambda>x. ys ! (r - 1) \<le> x) (drop (r - 1) ys) = drop (r - 1) ys"
    by (simp add: filter_id_conv)
  moreover have "length (filter (\<lambda>x. ys ! (r - 1) \<le> x) ys)
      = length (filter (\<lambda>x. ys ! (r - 1) \<le> x) (take (r - 1) ys))
        + length (filter (\<lambda>x. ys ! (r - 1) \<le> x) (drop (r - 1) ys))"
    by (metis append_take_drop_id filter_append length_append)
  ultimately show ?thesis by simp
qed

lemma percentile_value_quantile:
  assumes "xs \<noteq> []" and "p \<le> 100"
  shows "percentile_value xs p \<in> set xs"
    and "length xs * p \<le> 100 * length (filter (\<lambda>x. x \<le> percentile_value xs p) xs)"
    and "length xs * (100 - p) \<le> 100 * length (filter (\<lambda>x. percentile_value xs p \<le> x) xs)"
proof -
  let ?n = "length xs" and ?ys = "sort xs"
  let ?r = "nearest_rank ?n p"
  from assms(1) have n: "0 < ?n" by simp
  note b = nearest_rank_bounds [OF n assms(2)]
  have v: "percentile_value xs p = ?ys ! (?r - 1)"
    by (simp add: percentile_value_def)
  have r: "?r \<le> length ?ys" "1 \<le> ?r" using b by simp_all
  have "?ys ! (?r - 1) \<in> set ?ys"
    using r by (intro nth_mem) simp
  then show "percentile_value xs p \<in> set xs" by (simp add: v)
  have "?r \<le> length (filter (\<lambda>x. x \<le> ?ys ! (?r - 1)) ?ys)"
    using sorted_count_le [OF sorted_sort r] .
  then have "?r \<le> length (filter (\<lambda>x. x \<le> percentile_value xs p) xs)"
    by (simp add: v length_filter_sort)
  with b(3) show "?n * p \<le> 100 * length (filter (\<lambda>x. x \<le> percentile_value xs p) xs)"
    by linarith
  have "length ?ys - (?r - 1) \<le> length (filter (\<lambda>x. ?ys ! (?r - 1) \<le> x) ?ys)"
    using sorted_count_ge [OF sorted_sort r] .
  then have c: "?n - (?r - 1) \<le> length (filter (\<lambda>x. percentile_value xs p \<le> x) xs)"
    by (simp add: v length_filter_sort)
  have "?n * (100 - p) = 100 * ?n - ?n * p"
    by (simp add: diff_mult_distrib2 mult.commute)
  also have "\<dots> \<le> 100 * ?n - 100 * (?r - 1)"
    using b(4) by simp
  also have "\<dots> = 100 * (?n - (?r - 1))"
    by (simp add: diff_mult_distrib2)
  also have "\<dots> \<le> 100 * length (filter (\<lambda>x. percentile_value xs p \<le> x) xs)"
    using c by simp
  finally show "?n * (100 - p) \<le> 100 * length (filter (\<lambda>x. percentile_value xs p \<le> x) xs)" .
qed

lemma double_sided_trim_10_nonempty:
  assumes "xs \<noteq> []"
  shows "2 * (length xs * 10 div 100) \<le> length xs" and "double_sided_trim xs 10 \<noteq> []"
proof -
  have "length xs * 10 div 100 * 100 \<le> length xs * 10"
    by (rule div_times_less_eq_dividend)
  moreover from assms have "0 < length xs" by simp
  ultimately have "2 * (length xs * 10 div 100) < length xs" by linarith
  then show "2 * (length xs * 10 div 100) \<le> length xs"
    and "double_sided_trim xs 10 \<noteq> []"
    by (simp_all add: length_double_sided_trim flip: length_greater_0_conv)
qed

lemma calculate_rpm_from_spec:
  assumes "selfRtts s \<noteq> []" and "foreignRtts s \<noteq> []"
  shows "calculate_rpm ms_from_spec s
           = Inr (float64_divide 60
                    (arithmetic_mean [percentile_value (selfRtts s) 90,
                                      percentile_value (foreignRtts s) 90]),
                  float64_divide 60
                    (arithmetic_mean [arithmetic_mean (double_sided_trim (selfRtts s) 10),
                                      arithmetic_mean (double_sided_trim (foreignRtts s) 10)]))"
  using assms double_sided_trim_10_nonempty(2) [OF assms(1)]
    double_sided_trim_10_nonempty(2) [OF assms(2)]
  by (simp add: calculate_rpm_def ms_from_spec_def arithmetic_mean_pair)

text \<open>The statistics of the long example series, evaluated.\<close>

lemma long_series_sorted:
  "sort (selfRtts long_series_end)
     = [1 / 10, 1 / 5, 3 / 10, 2 / 5, 1 / 2, 3 / 5, 7 / 10, 4 / 5, 9 / 10, 1, 11 / 10, 6 / 5,
        13 / 10, 7 / 5, 3 / 2, 8 / 5, 17 / 10, 9 / 5, 19 / 10, 5]"
  "sort (foreignRtts long_series_end)
     = [1 / 10, 1 / 5, 3 / 10, 2 / 5, 1 / 2, 3 / 5, 7 / 10, 4 / 5, 9 / 10, 3]"
  by (simp_all add: long_series_end_def)

lemma long_series_statistics:
  "percentile_value (selfRtts long_series_end) 90 = 9 / 5"
  "percentile_value (foreignRtts long_series_end) 90 = 9 / 10"
  "double_sided_trim (selfRtts long_series_end) 10
     = [3 / 10, 2 / 5, 1 / 2, 3 / 5, 7 / 10, 4 / 5, 9 / 10, 1, 11 / 10, 6 / 5,
        13 / 10, 7 / 5, 3 / 2, 8 / 5, 17 / 10, 9 / 5]"
  "double_sided_trim (foreignRtts long_series_end) 10
     = [1 / 5, 3 / 10, 2 / 5, 1 / 2, 3 / 5, 7 / 10, 4 / 5, 9 / 10]"
  by (simp_all add: percentile_value_def double_sided_trim_def nearest_rank_def
      long_series_sorted) (simp_all add: long_series_end_def)

text \<open>
  C2. With the series statistics of the specification and both series non-empty, main
  prints as RPM (P90) 60 divided by the arithmetic mean of the 90th percentiles of the
  self and of the foreign series, and as RPM (trimmed mean) 60 divided by the arithmetic
  mean of their double-sided-10%-trimmed means (whenever the mean is not zero; with a
  mean of zero the float quotient is not a number). The percentile is taken over the
  whole series as the loop left it: it is one of its samples, at least 90 percent of the
  samples are at or below it and at least 10 percent at or above it. The trimmed mean is
  the average of what is left of the sorted series once its \<open>n * 10 div 100\<close> lowest and
  as many of its highest samples are dropped.
\<close>

theorem reported_rpm:
  assumes "ms env = ms_from_spec" and "selfRtts s \<noteq> []" and "foreignRtts s \<noteq> []"
  shows "calculate_rpm (ms env) s
           = Inr (float64_divide 60
                    (arithmetic_mean [percentile_value (selfRtts s) 90,
                                      percentile_value (foreignRtts s) 90]),
                  float64_divide 60
                    (arithmetic_mean [arithmetic_mean (double_sided_trim (selfRtts s) 10),
                                      arithmetic_mean (double_sided_trim (foreignRtts s) 10)]))
    \<and> RpmP90 (float64_divide 60
         (arithmetic_mean [percentile_value (selfRtts s) 90,
                           percentile_value (foreignRtts s) 90]))
         \<in> set (stdout (after_loop (startup env) c s))
    \<and> RpmTrimmedMean (float64_divide 60
         (arithmetic_mean [arithmetic_mean (double_sided_trim (selfRtts s) 10),
                           arithmetic_mean (double_sided_trim (foreignRtts s) 10)]))
         \<in> set (stdout (after_loop (startup env) c s))
    \<and> (arithmetic_mean [percentile_value (selfRtts s) 90,
                          percentile_value (foreignRtts s) 90] \<noteq> 0 \<longrightarrow>
         float64_divide 60
           (arithmetic_mean [percentile_value (selfRtts s) 90,
                             percentile_value (foreignRtts s) 90])
           = Some (spec_rpm (percentile_value (selfRtts s) 90)
                            (percentile_value (foreignRtts s) 90)))
    \<and> (arithmetic_mean [arithmetic_mean (double_sided_trim (selfRtts s) 10),
                          arithmetic_mean (double_sided_trim (foreignRtts s) 10)] \<noteq> 0 \<longrightarrow>
         float64_divide 60
           (arithmetic_mean [arithmetic_mean (double_sided_trim (selfRtts s) 10),
                             arithmetic_mean (double_sided_trim (foreignRtts s) 10)])
           = Some (spec_rpm (arithmetic_mean (double_sided_trim (selfRtts s) 10))
                            (arithmetic_mean (double_sided_trim (foreignRtts s) 10))))
    \<and> (\<forall>xs \<in> {selfRtts s, foreignRtts s}.
          percentile_value xs 90 \<in> set xs
          \<and> length xs * 90 \<le> 100 * length (filter (\<lambda>x. x \<le> percentile_value xs 90) xs)
          \<and> length xs * 10 \<le> 100 * length (filter (\<lambda>x. percentile_value xs 90 \<le> x) xs)
          \<and> sort xs = take (length xs * 10 div 100) (sort xs) @ double_sided_trim xs 10
                        @ drop (length xs - length xs * 10 div 100) (sort xs)
          \<and> length (double_sided_trim xs 10) = length xs - 2 * (length xs * 10 div 100)
          \<and> double_sided_trim xs 10 \<noteq> [])"
proof -
  have calc: "calculate_rpm (ms env) s
           = Inr (float64_divide 60
                    (arithmetic_mean [percentile_value (selfRtts s) 90,
                                      percentile_value (foreignRtts s) 90]),
                  float64_divide 60
                    (arithmetic_mean [arithmetic_mean (double_sided_trim (selfRtts s) 10),
                                      arithmetic_mean (double_sided_trim (foreignRtts s) 10)]))"
    using calculate_rpm_from_spec [OF assms(2,3)] by (simp only: assms(1))
  have out: "RpmP90 (float64_divide 60
         (arithmetic_mean [percentile_value (selfRtts s) 90,
                           percentile_value (foreignRtts s) 90]))
         \<in> set (stdout (after_loop (startup env) c s))
    \<and> RpmTrimmedMean (float64_divide 60
         (arithmetic_mean [arithmetic_mean (double_sided_trim (selfRtts s) 10),
                           arithmetic_mean (double_sided_trim (foreignRtts s) 10)]))
         \<in> set (stdout (after_loop (startup env) c s))"
    using calc by (subst (1 2) after_loop_startup) (simp add: print_results_def)
  have spec: "a \<noteq> 0 \<longrightarrow> float64_divide 60 (arithmetic_mean [x, y]) = Some (spec_rpm x y)"
    if "a = arithmetic_mean [x, y]" for a x y :: real
    using that by (simp add: float64_divide_def spec_rpm_def)
  have series: "percentile_value xs 90 \<in> set xs
          \<and> length xs * 90 \<le> 100 * length (filter (\<lambda>x. x \<le> percentile_value xs 90) xs)
          \<and> length xs * 10 \<le> 100 * length (filter (\<lambda>x. percentile_value xs 90 \<le> x) xs)
          \<and> sort xs = take (length xs * 10 div 100) (sort xs) @ double_sided_trim xs 10
                        @ drop (length xs - length xs * 10 div 100) (sort xs)
          \<and> length (double_sided_trim xs 10) = length xs - 2 * (length xs * 10 div 100)
          \<and> double_sided_trim xs 10 \<noteq> []"
    if ne: "xs \<noteq> []" for xs
    using percentile_value_quantile [OF ne, of 90]
      double_sided_trim_split [OF double_sided_trim_10_nonempty(1) [OF ne]]
      double_sided_trim_10_nonempty(2) [OF ne] length_double_sided_trim [of xs 10]
    by simp
  from calc out spec [OF refl] series [OF assms(2)] series [OF assms(3)]
  show ?thesis by blast
qed

theorem reported_rpm_witness:
  "ms example_environment = ms_from_spec
   \<and> selfRtts long_series_end \<noteq> [] \<and> foreignRtts long_series_end \<noteq> []
   \<and> length (selfRtts long_series_end) = 20 \<and> length (foreignRtts long_series_end) = 10
   \<and> percentile_value (selfRtts long_series_end) 90 = 9 / 5
   \<and> percentile_value (foreignRtts long_series_end) 90 = 9 / 10
   \<and> double_sided_trim (selfRtts long_series_end) 10
       = [3 / 10, 2 / 5, 1 / 2, 3 / 5, 7 / 10, 4 / 5, 9 / 10, 1, 11 / 10, 6 / 5,
          13 / 10, 7 / 5, 3 / 2, 8 / 5, 17 / 10, 9 / 5]
   \<and> double_sided_trim (foreignRtts long_series_end) 10
       = [1 / 5, 3 / 10, 2 / 5, 1 / 2, 3 / 5, 7 / 10, 4 / 5, 9 / 10]
   \<and> arithmetic_mean (double_sided_trim (selfRtts long_series_end) 10) = 21 / 20
   \<and> arithmetic_mean (selfRtts long_series_end) = 6 / 5
   \<and> arithmetic_mean (double_sided_trim (foreignRtts long_series_end) 10) = 11 / 20
   \<and> arithmetic_mean (foreignRtts long_series_end) = 3 / 4
   \<and> percentile_value (double_sided_trim (selfRtts long_series_end) 10) 90 = 17 / 10
   \<and> calculate_rpm (ms example_environment) long_series_end = Inr (Some (400 / 9), Some 75)
   \<and> spec_rpm (9 / 5) (9 / 10) = 400 / 9 \<and> spec_rpm (21 / 20) (11 / 20) = 75
   \<and> RpmP90 (Some (400 / 9))
        \<in> set (stdout (after_loop (startup example_environment) example_collection
                  long_series_end))
   \<and> RpmTrimmedMean (Some 75)
        \<in> set (stdout (after_loop (startup example_environment) example_collection
                  long_series_end))"
proof -
  have env: "ms example_environment = ms_from_spec"
    by (simp add: example_environment_def)
  have ne: "selfRtts long_series_end \<noteq> []" "foreignRtts long_series_end \<noteq> []"
    and len: "length (selfRtts long_series_end) = 20"
      "length (foreignRtts long_series_end) = 10"
    by (simp_all add: long_series_end_def)
  note st = long_series_statistics
  have means: "arithmetic_mean (double_sided_trim (selfRtts long_series_end) 10) = 21 / 20"
    "arithmetic_mean (double_sided_trim (foreignRtts long_series_end) 10) = 11 / 20"
    by (simp_all add: st arithmetic_mean_def)
  have plain: "arithmetic_mean (selfRtts long_series_end) = 6 / 5"
    "arithmetic_mean (foreignRtts long_series_end) = 3 / 4"
    by (simp_all add: long_series_end_def arithmetic_mean_def)
  have inner: "percentile_value (double_sided_trim (selfRtts long_series_end) 10) 90 = 17 / 10"
    by (simp add: st percentile_value_def nearest_rank_def)
  have q: "float64_divide 60 (arithmetic_mean [9 / 5, 9 / 10]) = Some (400 / 9)"
    "float64_divide 60 (arithmetic_mean [21 / 20, 11 / 20]) = Some 75"
    "spec_rpm (9 / 5) (9 / 10) = 400 / 9" "spec_rpm (21 / 20) (11 / 20) = 75"
    by (simp_all add: float64_divide_def arithmetic_mean_def spec_rpm_def)
  note r = reported_rpm [OF env ne, of example_collection, unfolded st means [unfolded st] q]
  from r have "calculate_rpm (ms example_environment) long_series_end
      = Inr (Some (400 / 9), Some 75)"
    and "RpmP90 (Some (400 / 9))
        \<in> set (stdout (after_loop (startup example_environment) example_collection
                  long_series_end))"
    and "RpmTrimmedMean (Some 75)
        \<in> set (stdout (after_loop (startup example_environment) example_collection
                  long_series_end))"
    by blast+
  with env ne len st means plain inner q(3,4) show ?thesis
    by blast
qed

end
